theory Spec2Isabelle
  imports Complex_Main
begin

section \<open>Data model\<close>

text \<open>
  The tracking records of the type declarations. A JavaScript \<open>number\<close> is
  modelled as a \<open>real\<close>: arithmetic is exact, there is no rounding, no NaN and no
  infinity. Everything below is about the formulas the code computes, read over the reals.
\<close>

record Vector3 =
  x :: real
  y :: real
  z :: real

record FaceData =
  detected :: bool
  position :: Vector3
  tilt :: real

record HandData =
  detected :: bool
  isPinching :: bool
  pinchDistance :: real
  position :: Vector3

text \<open>The two records the application starts from.\<close>

definition initialFaceData :: FaceData where
  "initialFaceData =
     \<lparr> FaceData.detected = False,
       FaceData.position = \<lparr> x = 0.5, y = 0.5, z = 0 \<rparr>,
       tilt = 0 \<rparr>"

definition initialHandData :: HandData where
  "initialHandData =
     \<lparr> HandData.detected = False,
       isPinching = False,
       pinchDistance = 0,
       HandData.position = \<lparr> x = 0, y = 0, z = 0 \<rparr> \<rparr>"

section \<open>The inference driver\<close>

text \<open>
  Reading a JavaScript array at an index beyond its length gives \<open>undefined\<close>, and
  reading a property of \<open>undefined\<close> throws a TypeError. \<open>elem_at\<close> is the array
  read, with \<open>None\<close> for \<open>undefined\<close>.
\<close>

datatype error = TypeError

definition elem_at :: "'a list \<Rightarrow> nat \<Rightarrow> 'a option" where
  "elem_at arr i = (if i < length arr then Some (arr ! i) else None)"

text \<open>
  What the outside world hands to one tick of the driver: the video's current
  presentation timestamp, and the landmark sets each detector returns when it is asked
  about the current frame (\<open>faceResult.faceLandmarks\<close>, \<open>handResult.landmarks\<close>): a list
  of faces (hands), each a list of landmark points.
\<close>

record Frame =
  currentTime :: real
  faceLandmarks :: "Vector3 list list"
  landmarks :: "Vector3 list list"

text \<open>
  The variables the loop closes over, and the calls a tick makes to its collaborators,
  in the order it makes them.
\<close>

record Driver =
  lastVideoTime :: real
  faceDataRef :: FaceData
  handDataRef :: HandData

datatype effect = FaceDetectForVideo | HandDetectForVideo | RequestAnimationFrame

record Tick =
  after :: Driver
  effects :: "effect list"
  thrown :: "error option"

text \<open>Step 1 of the tick: the record written to \<open>faceDataRef\<close> from the face result.\<close>

definition detectFace :: "Vector3 list list \<Rightarrow> FaceData \<Rightarrow> error + FaceData" where
  "detectFace faces cur =
     (if length faces > 0 then
        (case elem_at (faces ! 0) 1 of
           None \<Rightarrow> Inl TypeError
         | Some nose \<Rightarrow>
             Inr \<lparr> FaceData.detected = True,
                   FaceData.position = \<lparr> x = x nose, y = y nose, z = z nose \<rparr>,
                   tilt = 0 \<rparr>)
      else Inr (cur\<lparr> FaceData.detected := False \<rparr>))"

text \<open>Step 2 of the tick: the record written to \<open>handDataRef\<close> from the hand result.\<close>

definition detectHands :: "Vector3 list list \<Rightarrow> HandData \<Rightarrow> error + HandData" where
  "detectHands hands cur =
     (if length hands > 0 then
        (case elem_at (hands ! 0) 4 of
           None \<Rightarrow> Inl TypeError
         | Some thumbTip \<Rightarrow>
            (case elem_at (hands ! 0) 8 of
               None \<Rightarrow> Inl TypeError
             | Some indexTip \<Rightarrow>
                (let distance = sqrt ((x thumbTip - x indexTip) ^ 2 + (y thumbTip - y indexTip) ^ 2)
                 in case elem_at (hands ! 0) 0 of
                      None \<Rightarrow> Inl TypeError
                    | Some handPos \<Rightarrow>
                        Inr \<lparr> HandData.detected = True,
                              isPinching = (distance < 0.05),
                              pinchDistance = distance,
                              HandData.position = \<lparr> x = x handPos, y = y handPos, z = z handPos \<rparr> \<rparr>)))
      else Inr (cur\<lparr> HandData.detected := False \<rparr>))"

text \<open>
  One tick of \<open>renderLoop\<close>. An exception leaves the variables as they were when it
  was thrown and skips the rest of the tick, the rescheduling included.
\<close>

definition renderLoop :: "Frame \<Rightarrow> Driver \<Rightarrow> Tick" where
  "renderLoop fr d =
     (if currentTime fr \<noteq> lastVideoTime d then
        (let d1 = d\<lparr> lastVideoTime := currentTime fr \<rparr> in
         case detectFace (faceLandmarks fr) (faceDataRef d1) of
           Inl e \<Rightarrow> \<lparr> after = d1, effects = [FaceDetectForVideo], thrown = Some e \<rparr>
         | Inr face \<Rightarrow>
            (let d2 = d1\<lparr> faceDataRef := face \<rparr> in
             case detectHands (landmarks fr) (handDataRef d2) of
               Inl e \<Rightarrow>
                 \<lparr> after = d2, effects = [FaceDetectForVideo, HandDetectForVideo],
                   thrown = Some e \<rparr>
             | Inr hand \<Rightarrow>
                 \<lparr> after = d2\<lparr> handDataRef := hand \<rparr>,
                   effects = [FaceDetectForVideo, HandDetectForVideo, RequestAnimationFrame],
                   thrown = None \<rparr>))
      else \<lparr> after = d, effects = [RequestAnimationFrame], thrown = None \<rparr>)"

text \<open>
  \<open>predictWebcam\<close> sets \<open>lastVideoTime\<close> to \<open>-1\<close> and starts the loop on the two
  records the application was created with.
\<close>

definition predictWebcam :: Driver where
  "predictWebcam =
     \<lparr> lastVideoTime = - 1, faceDataRef = initialFaceData, handDataRef = initialHandData \<rparr>"

text \<open>
  The loop over the frames the browser delivers: the next tick runs only when the
  previous one asked for it.
\<close>

fun run :: "Frame list \<Rightarrow> Driver \<Rightarrow> Driver" where
  "run [] d = d"
| "run (fr # frs) d =
     (let r = renderLoop fr d in
      if RequestAnimationFrame \<in> set (effects r) then run frs (after r) else after r)"

section \<open>The holographic object\<close>

text \<open>
  The part of a mesh of the rendering library that the frame callback touches: its
  rotation angles and its scale vector. The three refs are \<open>None\<close> while the meshes are
  not mounted.
\<close>

record Mesh =
  rotation :: Vector3
  scale :: Vector3

record Scene =
  meshRef :: "Mesh option"
  atmosphereRef :: "Mesh option"
  coreRef :: "Mesh option"

definition baseScale :: real where
  "baseScale = 2.5"

text \<open>
  Modelled from the spec: \<open>Vector3.lerp\<close> belongs to the rendering library and is not
  among the sources. The spec has the applied scale "linearly interpolated from current
  toward target by a fixed damping factor per frame"; the library moves each component
  by \<open>(v - this) * alpha\<close>.
\<close>

definition lerp :: "Vector3 \<Rightarrow> Vector3 \<Rightarrow> real \<Rightarrow> Vector3" where
  "lerp this v alpha =
     \<lparr> x = x this + (x v - x this) * alpha,
       y = y this + (y v - y this) * alpha,
       z = z this + (z v - z this) * alpha \<rparr>"

text \<open>The local variable \<open>rotationSpeed\<close> of the frame callback, as the callback leaves it.\<close>

definition rotationSpeed :: "HandData \<Rightarrow> real" where
  "rotationSpeed hand =
     (if HandData.detected hand
      then (let rotationFactor = (x (HandData.position hand) - 0.5) * 10
            in 0.2 + rotationFactor)
      else 0.2)"

text \<open>The local variables \<open>pinchFactor\<close> and \<open>targetScale\<close>.\<close>

definition pinchFactor :: "HandData \<Rightarrow> real" where
  "pinchFactor hand = max 0 (min 1 (pinchDistance hand * 10))"

definition targetScale :: "HandData \<Rightarrow> real" where
  "targetScale hand =
     (if HandData.detected hand \<and> isPinching hand
      then baseScale * (0.5 + pinchFactor hand * 1.5)
      else baseScale)"

definition uniform :: "real \<Rightarrow> Vector3" where
  "uniform s = \<lparr> x = s, y = s, z = s \<rparr>"

definition rotateY :: "real \<Rightarrow> Mesh \<Rightarrow> Mesh" where
  "rotateY a m = m\<lparr> rotation := (rotation m)\<lparr> y := y (rotation m) + a \<rparr> \<rparr>"

definition scaleLerp :: "real \<Rightarrow> Mesh \<Rightarrow> Mesh" where
  "scaleLerp s m = m\<lparr> scale := lerp (scale m) (uniform s) 0.1 \<rparr>"

text \<open>
  The callback registered with \<open>useFrame\<close>: \<open>hand\<close> is the current value of
  \<open>handDataRef\<close>, \<open>delta\<close> the time since the previous frame.
\<close>

definition useFrame :: "HandData \<Rightarrow> real \<Rightarrow> Scene \<Rightarrow> Scene" where
  "useFrame hand delta sc =
     (if meshRef sc = None \<or> atmosphereRef sc = None \<or> coreRef sc = None then sc
      else
        \<lparr> meshRef =
            Some (scaleLerp (targetScale hand)
                   (rotateY (rotationSpeed hand * delta) (the (meshRef sc)))),
          atmosphereRef =
            Some (scaleLerp (targetScale hand * 1.2)
                   (rotateY ((rotationSpeed hand * 0.8) * delta) (the (atmosphereRef sc)))),
          coreRef =
            Some (scaleLerp (targetScale hand * 0.8)
                   (rotateY (- ((rotationSpeed hand * 0.5) * delta)) (the (coreRef sc)))) \<rparr>)"

section \<open>The tracking panel\<close>

text \<open>
  The inline style of the panel element: the CSS transform written by the update (a
  translation by two pixel lengths; \<open>None\<close> before the first write) and the opacity
  string. \<open>containerRef\<close> is \<open>None\<close> while the element is not mounted.
\<close>

datatype css_transform = Translate real real

record Style =
  transform :: "css_transform option"
  opacity :: string

record Window =
  innerWidth :: real
  innerHeight :: real

record HUD =
  containerRef :: "Style option"
  systemStatus :: string

definition updateHUD :: "FaceData \<Rightarrow> Window \<Rightarrow> HUD \<Rightarrow> HUD" where
  "updateHUD face window hud =
     (if FaceData.detected face \<and> containerRef hud \<noteq> None then
        (let px = (1 - x (FaceData.position face)) * innerWidth window;
             py = y (FaceData.position face) * innerHeight window;
             xOffset = 180;
             yOffset = - 50
         in \<lparr> containerRef =
                 Some ((the (containerRef hud))
                        \<lparr> transform := Some (Translate (px + xOffset) (py + yOffset)),
                          opacity := ''1'' \<rparr>),
               systemStatus = ''ONLINE'' \<rparr>)
      else if containerRef hud \<noteq> None then
        \<lparr> containerRef = Some ((the (containerRef hud))\<lparr> opacity := ''0.3'' \<rparr>),
          systemStatus = ''SEARCHING...'' \<rparr>
      else hud)"

section \<open>Sample inputs\<close>

text \<open>
  Detector results used to run the definitions on concrete frames: a face of 478
  landmarks with its nose tip at (0.2, 0.3), a hand of 21 landmarks whose thumb tip and
  index fingertip coincide, a hand whose thumb tip and index fingertip are 0.5 apart,
  and three frames built from them; then hand records at a given horizontal position
  and at a given pinch distance, and a scene whose three meshes are mounted, unrotated
  and of scale 1.
\<close>

definition landmark :: "real \<Rightarrow> real \<Rightarrow> Vector3" where
  "landmark a b = \<lparr> x = a, y = b, z = 0 \<rparr>"

definition sampleFace :: "Vector3 list" where
  "sampleFace = replicate 478 (landmark 0.2 0.3)"

definition pinchedHand :: "Vector3 list" where
  "pinchedHand = replicate 21 (landmark 0.5 0.5)"

definition openHand :: "Vector3 list" where
  "openHand = (replicate 21 (landmark 0.6 0.8))[4 := landmark 0.3 0.4]"

definition pinchFrame :: Frame where
  "pinchFrame = \<lparr> currentTime = 0, faceLandmarks = [sampleFace], landmarks = [pinchedHand] \<rparr>"

definition openFrame :: Frame where
  "openFrame = \<lparr> currentTime = 0, faceLandmarks = [sampleFace], landmarks = [openHand] \<rparr>"

definition lostFrame :: Frame where
  "lostFrame = \<lparr> currentTime = 1, faceLandmarks = [], landmarks = [] \<rparr>"

definition handAt :: "real \<Rightarrow> HandData" where
  "handAt a =
     \<lparr> HandData.detected = True, isPinching = False, pinchDistance = 0.5,
       HandData.position = landmark a 0.5 \<rparr>"

definition pinchAt :: "real \<Rightarrow> HandData" where
  "pinchAt gap =
     \<lparr> HandData.detected = True, isPinching = True, pinchDistance = gap,
       HandData.position = landmark 0.5 0.5 \<rparr>"

definition restMesh :: Mesh where
  "restMesh = \<lparr> rotation = \<lparr> x = 0, y = 0, z = 0 \<rparr>, scale = \<lparr> x = 1, y = 1, z = 1 \<rparr> \<rparr>"

definition restScene :: Scene where
  "restScene = \<lparr> meshRef = Some restMesh, atmosphereRef = Some restMesh, coreRef = Some restMesh \<rparr>"

section \<open>Evaluating the definitions\<close>

lemmas eval_defs = renderLoop_def detectFace_def detectHands_def elem_at_def predictWebcam_def
  initialFaceData_def initialHandData_def Let_def

lemmas sample_defs = landmark_def sampleFace_def pinchedHand_def openHand_def pinchFrame_def
  openFrame_def lostFrame_def

lemma sqrt_quarter: "sqrt (1 / 4) = 1 / 2"
  by (rule real_sqrt_unique) (simp_all add: power2_eq_square)

lemma after_pinchFrame:
  "run [pinchFrame] predictWebcam =
     \<lparr> lastVideoTime = 0,
       faceDataRef =
         \<lparr> FaceData.detected = True, FaceData.position = \<lparr> x = 0.2, y = 0.3, z = 0 \<rparr>,
           tilt = 0 \<rparr>,
       handDataRef =
         \<lparr> HandData.detected = True, isPinching = True, pinchDistance = 0,
           HandData.position = \<lparr> x = 0.5, y = 0.5, z = 0 \<rparr> \<rparr> \<rparr>"
  by (simp add: eval_defs sample_defs)

lemma after_lostFrame:
  "run [pinchFrame, lostFrame] predictWebcam =
     \<lparr> lastVideoTime = 1,
       faceDataRef =
         \<lparr> FaceData.detected = False, FaceData.position = \<lparr> x = 0.2, y = 0.3, z = 0 \<rparr>,
           tilt = 0 \<rparr>,
       handDataRef =
         \<lparr> HandData.detected = False, isPinching = True, pinchDistance = 0,
           HandData.position = \<lparr> x = 0.5, y = 0.5, z = 0 \<rparr> \<rparr> \<rparr>"
  by (simp add: eval_defs sample_defs)

section \<open>The steps of a tick\<close>

lemma detectFace_empty: "detectFace [] cur = Inr (cur\<lparr> FaceData.detected := False \<rparr>)"
  by (simp add: detectFace_def)

lemma detectHands_empty: "detectHands [] cur = Inr (cur\<lparr> HandData.detected := False \<rparr>)"
  by (simp add: detectHands_def)

lemma detectFace_wf:
  assumes "1 < length face"
  shows "detectFace (face # rest) cur =
           Inr \<lparr> FaceData.detected = True,
                 FaceData.position = \<lparr> x = x (face ! 1), y = y (face ! 1), z = z (face ! 1) \<rparr>,
                 tilt = 0 \<rparr>"
  using assms by (simp add: detectFace_def elem_at_def)

lemma detectHands_wf:
  assumes "8 < length hand"
  shows "detectHands (hand # rest) cur =
           Inr \<lparr> HandData.detected = True,
                 isPinching =
                   (sqrt ((x (hand ! 4) - x (hand ! 8))\<^sup>2 + (y (hand ! 4) - y (hand ! 8))\<^sup>2)
                      < 0.05),
                 pinchDistance =
                   sqrt ((x (hand ! 4) - x (hand ! 8))\<^sup>2 + (y (hand ! 4) - y (hand ! 8))\<^sup>2),
                 HandData.position =
                   \<lparr> x = x (hand ! 0), y = y (hand ! 0), z = z (hand ! 0) \<rparr> \<rparr>"
  using assms by (auto simp: detectHands_def elem_at_def Let_def)

lemma detectFace_total:
  assumes "faces = [] \<or> 1 < length (faces ! 0)"
  shows "\<exists>face. detectFace faces cur = Inr face"
  using assms by (cases faces) (auto simp: detectFace_def elem_at_def)

lemma detectHands_total:
  assumes "hands = [] \<or> 8 < length (hands ! 0)"
  shows "\<exists>hand. detectHands hands cur = Inr hand"
  using assms by (cases hands) (auto simp: detectHands_def elem_at_def Let_def)

lemma detectFace_tilt:
  assumes "detectFace faces cur = Inr face" and "tilt cur = 0"
  shows "tilt face = 0"
  using assms by (auto simp: detectFace_def split: if_splits option.splits)

lemma detectHands_pinch_inv:
  assumes "detectHands hands cur = Inr hand"
      and "isPinching cur \<longrightarrow> pinchDistance cur < 0.05"
  shows "isPinching hand \<longrightarrow> pinchDistance hand < 0.05"
  using assms
  by (auto simp: detectHands_def Let_def split: if_splits option.splits)

lemma renderLoop_skip:
  assumes "currentTime fr = lastVideoTime d"
  shows "renderLoop fr d = \<lparr> after = d, effects = [RequestAnimationFrame], thrown = None \<rparr>"
  using assms by (simp add: renderLoop_def)

lemma renderLoop_hand:
  assumes "currentTime fr \<noteq> lastVideoTime d"
      and "detectFace (faceLandmarks fr) (faceDataRef d) = Inr face"
      and "detectHands (landmarks fr) (handDataRef d) = Inr hand"
  shows "renderLoop fr d =
           \<lparr> after = \<lparr> lastVideoTime = currentTime fr, faceDataRef = face, handDataRef = hand \<rparr>,
             effects = [FaceDetectForVideo, HandDetectForVideo, RequestAnimationFrame],
             thrown = None \<rparr>"
  using assms by (simp add: renderLoop_def Let_def)

lemma renderLoop_face_cases:
  "faceDataRef (after (renderLoop fr d)) = faceDataRef d \<or>
   detectFace (faceLandmarks fr) (faceDataRef d) = Inr (faceDataRef (after (renderLoop fr d)))"
  by (simp add: renderLoop_def Let_def split: sum.splits)

lemma renderLoop_hand_cases:
  "handDataRef (after (renderLoop fr d)) = handDataRef d \<or>
   detectHands (landmarks fr) (handDataRef d) = Inr (handDataRef (after (renderLoop fr d)))"
  by (simp add: renderLoop_def Let_def split: sum.splits)

section \<open>Runs of the loop\<close>

lemma face_loss_idem:
  assumes "\<not> FaceData.detected face"
  shows "face\<lparr> FaceData.detected := False \<rparr> = face"
  using assms by (cases face) simp

lemma hand_loss_idem:
  assumes "\<not> HandData.detected hand"
  shows "hand\<lparr> HandData.detected := False \<rparr> = hand"
  using assms by (cases hand) simp

lemma renderLoop_tilt:
  assumes "tilt (faceDataRef d) = 0"
  shows "tilt (faceDataRef (after (renderLoop fr d))) = 0"
  using renderLoop_face_cases [of fr d] assms detectFace_tilt by metis

lemma run_tilt:
  assumes "tilt (faceDataRef d) = 0"
  shows "tilt (faceDataRef (run frs d)) = 0"
  using assms
proof (induction frs arbitrary: d)
  case Nil
  then show ?case by simp
next
  case (Cons fr frs)
  from Cons.prems have "tilt (faceDataRef (after (renderLoop fr d))) = 0"
    by (rule renderLoop_tilt)
  with Cons.IH show ?case by (simp add: Let_def)
qed

lemma renderLoop_pinch_inv:
  assumes "isPinching (handDataRef d) \<longrightarrow> pinchDistance (handDataRef d) < 0.05"
  shows "isPinching (handDataRef (after (renderLoop fr d))) \<longrightarrow>
         pinchDistance (handDataRef (after (renderLoop fr d))) < 0.05"
  using renderLoop_hand_cases [of fr d] assms detectHands_pinch_inv
  by metis

lemma run_pinch_inv:
  assumes "isPinching (handDataRef d) \<longrightarrow> pinchDistance (handDataRef d) < 0.05"
  shows "isPinching (handDataRef (run frs d)) \<longrightarrow> pinchDistance (handDataRef (run frs d)) < 0.05"
  using assms
proof (induction frs arbitrary: d)
  case Nil
  then show ?case by simp
next
  case (Cons fr frs)
  from Cons.prems
  have "isPinching (handDataRef (after (renderLoop fr d))) \<longrightarrow>
        pinchDistance (handDataRef (after (renderLoop fr d))) < 0.05"
    by (rule renderLoop_pinch_inv)
  with Cons.IH show ?case by (simp add: Let_def)
qed

lemma renderLoop_zero_faces:
  assumes "faceLandmarks fr = []"
  shows "faceDataRef (after (renderLoop fr d)) =
           (if currentTime fr \<noteq> lastVideoTime d
            then (faceDataRef d)\<lparr> FaceData.detected := False \<rparr> else faceDataRef d)"
  using assms by (simp add: renderLoop_def detectFace_empty Let_def split: sum.splits)

lemma renderLoop_zero_hands:
  assumes "landmarks fr = []"
      and "faceLandmarks fr = [] \<or> 1 < length (faceLandmarks fr ! 0)"
  shows "handDataRef (after (renderLoop fr d)) =
           (if currentTime fr \<noteq> lastVideoTime d
            then (handDataRef d)\<lparr> HandData.detected := False \<rparr> else handDataRef d)"
proof -
  from assms(2) obtain face where "detectFace (faceLandmarks fr) (faceDataRef d) = Inr face"
    using detectFace_total by blast
  with assms(1) show ?thesis
    by (simp add: renderLoop_def detectHands_empty Let_def)
qed

lemma renderLoop_zero_hands_weak:
  assumes "landmarks fr = []"
  shows "handDataRef (after (renderLoop fr d)) = handDataRef d \<or>
         handDataRef (after (renderLoop fr d)) = (handDataRef d)\<lparr> HandData.detected := False \<rparr>"
  using assms renderLoop_hand_cases [of fr d] by (auto simp: detectHands_empty)

lemma run_zero_faces_lost:
  assumes "\<forall>f \<in> set frs. faceLandmarks f = []"
      and "\<not> FaceData.detected (faceDataRef d)"
  shows "faceDataRef (run frs d) = faceDataRef d"
  using assms
proof (induction frs arbitrary: d)
  case Nil
  then show ?case by simp
next
  case (Cons fr frs)
  from Cons.prems have same: "faceDataRef (after (renderLoop fr d)) = faceDataRef d"
    by (simp add: renderLoop_zero_faces face_loss_idem)
  with Cons.prems have "faceDataRef (run frs (after (renderLoop fr d))) = faceDataRef d"
    using Cons.IH [of "after (renderLoop fr d)"] by simp
  with same show ?case by (simp add: Let_def)
qed

lemma run_zero_hands_lost:
  assumes "\<forall>f \<in> set frs. landmarks f = []"
      and "\<not> HandData.detected (handDataRef d)"
  shows "handDataRef (run frs d) = handDataRef d"
  using assms
proof (induction frs arbitrary: d)
  case Nil
  then show ?case by simp
next
  case (Cons fr frs)
  from Cons.prems have same: "handDataRef (after (renderLoop fr d)) = handDataRef d"
    using renderLoop_zero_hands_weak [of fr d] by (auto simp: hand_loss_idem)
  with Cons.prems have "handDataRef (run frs (after (renderLoop fr d))) = handDataRef d"
    using Cons.IH [of "after (renderLoop fr d)"] by simp
  with same show ?case by (simp add: Let_def)
qed

lemma run_zero_faces:
  assumes "\<forall>f \<in> set (fr # frs). faceLandmarks f = []"
      and "currentTime fr \<noteq> lastVideoTime d"
  shows "faceDataRef (run (fr # frs) d) = (faceDataRef d)\<lparr> FaceData.detected := False \<rparr>"
proof -
  from assms
  have tick: "faceDataRef (after (renderLoop fr d)) = (faceDataRef d)\<lparr> FaceData.detected := False \<rparr>"
    by (simp add: renderLoop_zero_faces)
  then have "\<not> FaceData.detected (faceDataRef (after (renderLoop fr d)))" by simp
  with assms(1)
  have "faceDataRef (run frs (after (renderLoop fr d))) = faceDataRef (after (renderLoop fr d))"
    by (simp add: run_zero_faces_lost)
  with tick show ?thesis by (simp add: Let_def)
qed

lemma run_zero_hands:
  assumes "\<forall>f \<in> set (fr # frs). landmarks f = []"
      and "currentTime fr \<noteq> lastVideoTime d"
      and "faceLandmarks fr = [] \<or> 1 < length (faceLandmarks fr ! 0)"
  shows "handDataRef (run (fr # frs) d) = (handDataRef d)\<lparr> HandData.detected := False \<rparr>"
proof -
  from assms
  have tick: "handDataRef (after (renderLoop fr d)) = (handDataRef d)\<lparr> HandData.detected := False \<rparr>"
    by (simp add: renderLoop_zero_hands)
  then have "\<not> HandData.detected (handDataRef (after (renderLoop fr d)))" by simp
  with assms(1)
  have "handDataRef (run frs (after (renderLoop fr d))) = handDataRef (after (renderLoop fr d))"
    by (simp add: run_zero_hands_lost)
  with tick show ?thesis by (simp add: Let_def)
qed

section \<open>Hand interpretation: the pinch\<close>

text \<open>
  Claim C1. On a tick that processes a new frame, when the hand detector returns at
  least one hand (the first hand having the thumb-tip landmark 4 and the index-fingertip
  landmark 8, and the face result being empty or a face with a nose-tip landmark, so that
  the tick reaches the hand step), the hand record written has \<open>pinchDistance\<close> equal to
  the planar Euclidean distance between landmarks 4 and 8 (z ignored), and \<open>isPinching\<close>
  holds exactly when that distance is strictly below 0.05. When the two landmarks
  coincide in the plane, \<open>isPinching\<close> is true and \<open>pinchDistance\<close> is 0; when the
  distance is at least 0.05, \<open>isPinching\<close> is false.
\<close>

theorem pinch_from_landmarks:
  assumes "currentTime fr \<noteq> lastVideoTime d"
      and "faceLandmarks fr = [] \<or> 1 < length (faceLandmarks fr ! 0)"
      and "landmarks fr = hand # rest"
      and "8 < length hand"
  shows "pinchDistance (handDataRef (after (renderLoop fr d))) =
           sqrt ((x (hand ! 4) - x (hand ! 8))\<^sup>2 + (y (hand ! 4) - y (hand ! 8))\<^sup>2)
         \<and> (isPinching (handDataRef (after (renderLoop fr d))) \<longleftrightarrow>
              sqrt ((x (hand ! 4) - x (hand ! 8))\<^sup>2 + (y (hand ! 4) - y (hand ! 8))\<^sup>2) < 0.05)
         \<and> (x (hand ! 4) = x (hand ! 8) \<and> y (hand ! 4) = y (hand ! 8) \<longrightarrow>
              isPinching (handDataRef (after (renderLoop fr d)))
              \<and> pinchDistance (handDataRef (after (renderLoop fr d))) = 0)
         \<and> (0.05 \<le> sqrt ((x (hand ! 4) - x (hand ! 8))\<^sup>2 + (y (hand ! 4) - y (hand ! 8))\<^sup>2) \<longrightarrow>
              \<not> isPinching (handDataRef (after (renderLoop fr d))))"
proof -
  from assms(2) obtain face where face: "detectFace (faceLandmarks fr) (faceDataRef d) = Inr face"
    using detectFace_total by blast
  from assms(3,4) have
    "detectHands (landmarks fr) (handDataRef d) =
       Inr \<lparr> HandData.detected = True,
             isPinching =
               (sqrt ((x (hand ! 4) - x (hand ! 8))\<^sup>2 + (y (hand ! 4) - y (hand ! 8))\<^sup>2) < 0.05),
             pinchDistance =
               sqrt ((x (hand ! 4) - x (hand ! 8))\<^sup>2 + (y (hand ! 4) - y (hand ! 8))\<^sup>2),
             HandData.position = \<lparr> x = x (hand ! 0), y = y (hand ! 0), z = z (hand ! 0) \<rparr> \<rparr>"
    by (simp add: detectHands_wf)
  with assms(1) face show ?thesis
    by (simp add: renderLoop_hand)
qed

theorem pinch_from_landmarks_witness:
  "currentTime pinchFrame \<noteq> lastVideoTime predictWebcam
   \<and> landmarks pinchFrame = [pinchedHand] \<and> 8 < length pinchedHand
   \<and> isPinching (handDataRef (after (renderLoop pinchFrame predictWebcam)))
   \<and> pinchDistance (handDataRef (after (renderLoop pinchFrame predictWebcam))) = 0
   \<and> landmarks openFrame = [openHand] \<and> 8 < length openHand
   \<and> pinchDistance (handDataRef (after (renderLoop openFrame predictWebcam))) = 0.5
   \<and> \<not> isPinching (handDataRef (after (renderLoop openFrame predictWebcam)))"
proof -
  have p1: "currentTime pinchFrame \<noteq> lastVideoTime predictWebcam"
    by (simp add: pinchFrame_def predictWebcam_def)
  have p2: "faceLandmarks pinchFrame = [] \<or> 1 < length (faceLandmarks pinchFrame ! 0)"
    by (simp add: pinchFrame_def sampleFace_def)
  have p3: "landmarks pinchFrame = pinchedHand # []"
    by (simp add: pinchFrame_def)
  have p4: "8 < length pinchedHand"
    by (simp add: pinchedHand_def)
  have o1: "currentTime openFrame \<noteq> lastVideoTime predictWebcam"
    by (simp add: openFrame_def predictWebcam_def)
  have o2: "faceLandmarks openFrame = [] \<or> 1 < length (faceLandmarks openFrame ! 0)"
    by (simp add: openFrame_def sampleFace_def)
  have o3: "landmarks openFrame = openHand # []"
    by (simp add: openFrame_def)
  have o4: "8 < length openHand"
    by (simp add: openHand_def)
  have far: "sqrt ((x (openHand ! 4) - x (openHand ! 8))\<^sup>2
                 + (y (openHand ! 4) - y (openHand ! 8))\<^sup>2) = 1 / 2"
    by (simp add: openHand_def landmark_def power2_eq_square sqrt_quarter)
  have near: "x (pinchedHand ! 4) = x (pinchedHand ! 8) \<and> y (pinchedHand ! 4) = y (pinchedHand ! 8)"
    by (simp add: pinchedHand_def)
  from pinch_from_landmarks [OF p1 p2 p3 p4] pinch_from_landmarks [OF o1 o2 o3 o4]
  show ?thesis
    using p1 p3 p4 o3 o4 near far by simp
qed

text \<open>
  Claim C10. In every reachable hand record (the initial one, and the one after any
  sequence of ticks, ticks with zero hands and their stale fields included) \<open>isPinching\<close>
  implies \<open>pinchDistance < 0.05\<close>. The converse fails: the initial record has
  \<open>pinchDistance = 0\<close> and \<open>isPinching = False\<close>.
\<close>

theorem pinching_implies_close:
  "(isPinching (handDataRef (run frs predictWebcam)) \<longrightarrow>
      pinchDistance (handDataRef (run frs predictWebcam)) < 0.05)
   \<and> pinchDistance initialHandData = 0
   \<and> \<not> isPinching initialHandData
   \<and> \<not> (pinchDistance initialHandData < 0.05 \<longrightarrow> isPinching initialHandData)"
proof -
  have "isPinching (handDataRef predictWebcam) \<longrightarrow> pinchDistance (handDataRef predictWebcam) < 0.05"
    by (simp add: predictWebcam_def initialHandData_def)
  then have "isPinching (handDataRef (run frs predictWebcam)) \<longrightarrow>
      pinchDistance (handDataRef (run frs predictWebcam)) < 0.05"
    by (rule run_pinch_inv)
  then show ?thesis by (simp add: initialHandData_def)
qed

theorem pinching_implies_close_witness:
  "isPinching (handDataRef (run [pinchFrame] predictWebcam))
   \<and> pinchDistance (handDataRef (run [pinchFrame] predictWebcam)) < 0.05"
proof -
  have "isPinching (handDataRef (run [pinchFrame] predictWebcam))"
    unfolding after_pinchFrame by simp
  with pinching_implies_close [of "[pinchFrame]"] show ?thesis by blast
qed

section \<open>The frame skip\<close>

text \<open>
  Claim C2. On a tick where the video's current timestamp equals the last processed
  one, the tick makes no detector call (its only call is the rescheduling), throws
  nothing and leaves the whole loop state, both tracking records included, unchanged.
  When the timestamp differs (and the detector results are well formed: no face or a
  face with a nose-tip landmark, no hand or a hand with landmarks up to index 8) the tick
  records the new timestamp and calls the face detector once, then the hand detector
  once, then reschedules itself.
\<close>

theorem frame_skip:
  "(currentTime fr = lastVideoTime d \<longrightarrow>
      effects (renderLoop fr d) = [RequestAnimationFrame]
      \<and> thrown (renderLoop fr d) = None
      \<and> after (renderLoop fr d) = d)
   \<and> (currentTime fr \<noteq> lastVideoTime d
        \<and> (faceLandmarks fr = [] \<or> 1 < length (faceLandmarks fr ! 0))
        \<and> (landmarks fr = [] \<or> 8 < length (landmarks fr ! 0)) \<longrightarrow>
      lastVideoTime (after (renderLoop fr d)) = currentTime fr
      \<and> effects (renderLoop fr d) = [FaceDetectForVideo, HandDetectForVideo, RequestAnimationFrame]
      \<and> count_list (effects (renderLoop fr d)) FaceDetectForVideo = 1
      \<and> count_list (effects (renderLoop fr d)) HandDetectForVideo = 1)"
proof (intro conjI impI)
  assume "currentTime fr = lastVideoTime d"
  then have skip: "renderLoop fr d = \<lparr> after = d, effects = [RequestAnimationFrame], thrown = None \<rparr>"
    by (rule renderLoop_skip)
  from skip show "effects (renderLoop fr d) = [RequestAnimationFrame]" by simp
  from skip show "thrown (renderLoop fr d) = None" by simp
  from skip show "after (renderLoop fr d) = d" by simp
next
  assume a: "currentTime fr \<noteq> lastVideoTime d
        \<and> (faceLandmarks fr = [] \<or> 1 < length (faceLandmarks fr ! 0))
        \<and> (landmarks fr = [] \<or> 8 < length (landmarks fr ! 0))"
  then obtain face where face: "detectFace (faceLandmarks fr) (faceDataRef d) = Inr face"
    using detectFace_total by blast
  from a obtain hand where hand: "detectHands (landmarks fr) (handDataRef d) = Inr hand"
    using detectHands_total by blast
  from a face hand have tick: "renderLoop fr d =
           \<lparr> after = \<lparr> lastVideoTime = currentTime fr, faceDataRef = face, handDataRef = hand \<rparr>,
             effects = [FaceDetectForVideo, HandDetectForVideo, RequestAnimationFrame],
             thrown = None \<rparr>"
    by (simp add: renderLoop_hand)
  from tick show "lastVideoTime (after (renderLoop fr d)) = currentTime fr" by simp
  from tick show "effects (renderLoop fr d) = [FaceDetectForVideo, HandDetectForVideo, RequestAnimationFrame]"
    by simp
  from tick show "count_list (effects (renderLoop fr d)) FaceDetectForVideo = 1" by simp
  from tick show "count_list (effects (renderLoop fr d)) HandDetectForVideo = 1" by simp
qed

theorem frame_skip_witness:
  "currentTime pinchFrame = lastVideoTime (after (renderLoop pinchFrame predictWebcam))
   \<and> effects (renderLoop pinchFrame (after (renderLoop pinchFrame predictWebcam)))
       = [RequestAnimationFrame]
   \<and> after (renderLoop pinchFrame (after (renderLoop pinchFrame predictWebcam)))
       = after (renderLoop pinchFrame predictWebcam)
   \<and> currentTime pinchFrame \<noteq> lastVideoTime predictWebcam
   \<and> effects (renderLoop pinchFrame predictWebcam)
       = [FaceDetectForVideo, HandDetectForVideo, RequestAnimationFrame]
   \<and> lastVideoTime (after (renderLoop pinchFrame predictWebcam)) = 0"
proof -
  have fresh: "currentTime pinchFrame \<noteq> lastVideoTime predictWebcam"
    by (simp add: pinchFrame_def predictWebcam_def)
  have wf: "(faceLandmarks pinchFrame = [] \<or> 1 < length (faceLandmarks pinchFrame ! 0))
        \<and> (landmarks pinchFrame = [] \<or> 8 < length (landmarks pinchFrame ! 0))"
    by (simp add: pinchFrame_def sampleFace_def pinchedHand_def)
  have t0: "currentTime pinchFrame = 0" by (simp add: pinchFrame_def)
  from frame_skip [of pinchFrame predictWebcam, THEN conjunct2, THEN mp, OF conjI, OF fresh wf]
  have first: "lastVideoTime (after (renderLoop pinchFrame predictWebcam)) = currentTime pinchFrame
      \<and> effects (renderLoop pinchFrame predictWebcam)
          = [FaceDetectForVideo, HandDetectForVideo, RequestAnimationFrame]"
    by simp
  then have same: "currentTime pinchFrame = lastVideoTime (after (renderLoop pinchFrame predictWebcam))"
    by simp
  from frame_skip [of pinchFrame "after (renderLoop pinchFrame predictWebcam)",
      THEN conjunct1, THEN mp, OF same]
  have second: "effects (renderLoop pinchFrame (after (renderLoop pinchFrame predictWebcam)))
       = [RequestAnimationFrame]
     \<and> after (renderLoop pinchFrame (after (renderLoop pinchFrame predictWebcam)))
       = after (renderLoop pinchFrame predictWebcam)"
    by simp
  from fresh first second t0 show ?thesis by simp
qed

section \<open>Loss of tracking\<close>

text \<open>
  Claim C3. A tick that processes a frame on which the face detector returns zero
  faces writes the previous face record with \<open>detected\<close> set to false and every other
  field as it was; the same holds for the hand record when the hand detector returns
  zero hands (the tick reaches the hand step when the face result is empty or a face
  with a nose-tip landmark). Hence, over any run of ticks that starts with a processed
  frame and sees zero faces (zero hands) throughout, the record at the end is the record
  from before the run with \<open>detected\<close> false: its position is the one last written
  while a face (hand) was detected.
\<close>

theorem stale_on_loss:
  "(currentTime fr \<noteq> lastVideoTime d \<and> faceLandmarks fr = [] \<longrightarrow>
      faceDataRef (after (renderLoop fr d)) = (faceDataRef d)\<lparr> FaceData.detected := False \<rparr>)
   \<and> (currentTime fr \<noteq> lastVideoTime d \<and> landmarks fr = []
        \<and> (faceLandmarks fr = [] \<or> 1 < length (faceLandmarks fr ! 0)) \<longrightarrow>
      handDataRef (after (renderLoop fr d)) = (handDataRef d)\<lparr> HandData.detected := False \<rparr>)
   \<and> (currentTime fr \<noteq> lastVideoTime d \<and> (\<forall>f \<in> set (fr # frs). faceLandmarks f = []) \<longrightarrow>
      faceDataRef (run (fr # frs) d) = (faceDataRef d)\<lparr> FaceData.detected := False \<rparr>)
   \<and> (currentTime fr \<noteq> lastVideoTime d \<and> (\<forall>f \<in> set (fr # frs). landmarks f = [])
        \<and> (faceLandmarks fr = [] \<or> 1 < length (faceLandmarks fr ! 0)) \<longrightarrow>
      handDataRef (run (fr # frs) d) = (handDataRef d)\<lparr> HandData.detected := False \<rparr>)"
proof (intro conjI impI)
  assume "currentTime fr \<noteq> lastVideoTime d \<and> faceLandmarks fr = []"
  then show "faceDataRef (after (renderLoop fr d)) = (faceDataRef d)\<lparr> FaceData.detected := False \<rparr>"
    by (simp add: renderLoop_zero_faces)
next
  assume "currentTime fr \<noteq> lastVideoTime d \<and> landmarks fr = []
        \<and> (faceLandmarks fr = [] \<or> 1 < length (faceLandmarks fr ! 0))"
  then show "handDataRef (after (renderLoop fr d)) = (handDataRef d)\<lparr> HandData.detected := False \<rparr>"
    by (simp add: renderLoop_zero_hands)
next
  assume "currentTime fr \<noteq> lastVideoTime d \<and> (\<forall>f \<in> set (fr # frs). faceLandmarks f = [])"
  then show "faceDataRef (run (fr # frs) d) = (faceDataRef d)\<lparr> FaceData.detected := False \<rparr>"
    using run_zero_faces [of fr frs d] by blast
next
  assume "currentTime fr \<noteq> lastVideoTime d \<and> (\<forall>f \<in> set (fr # frs). landmarks f = [])
        \<and> (faceLandmarks fr = [] \<or> 1 < length (faceLandmarks fr ! 0))"
  then show "handDataRef (run (fr # frs) d) = (handDataRef d)\<lparr> HandData.detected := False \<rparr>"
    using run_zero_hands [of fr frs d] by blast
qed

theorem stale_on_loss_witness:
  "FaceData.detected (faceDataRef (run [pinchFrame] predictWebcam))
   \<and> HandData.detected (handDataRef (run [pinchFrame] predictWebcam))
   \<and> faceDataRef (run [lostFrame, lostFrame, lostFrame\<lparr> currentTime := 2 \<rparr>]
                     (run [pinchFrame] predictWebcam))
       = \<lparr> FaceData.detected = False, FaceData.position = \<lparr> x = 0.2, y = 0.3, z = 0 \<rparr>,
           tilt = 0 \<rparr>
   \<and> handDataRef (run [lostFrame, lostFrame, lostFrame\<lparr> currentTime := 2 \<rparr>]
                     (run [pinchFrame] predictWebcam))
       = \<lparr> HandData.detected = False, isPinching = True, pinchDistance = 0,
           HandData.position = \<lparr> x = 0.5, y = 0.5, z = 0 \<rparr> \<rparr>"
proof -
  define d0 where "d0 = run [pinchFrame] predictWebcam"
  have st: "d0 =
     \<lparr> lastVideoTime = 0,
       faceDataRef =
         \<lparr> FaceData.detected = True, FaceData.position = \<lparr> x = 0.2, y = 0.3, z = 0 \<rparr>,
           tilt = 0 \<rparr>,
       handDataRef =
         \<lparr> HandData.detected = True, isPinching = True, pinchDistance = 0,
           HandData.position = \<lparr> x = 0.5, y = 0.5, z = 0 \<rparr> \<rparr> \<rparr>"
    unfolding d0_def by (rule after_pinchFrame)
  have faces: "currentTime lostFrame \<noteq> lastVideoTime d0
      \<and> (\<forall>f \<in> set (lostFrame # [lostFrame, lostFrame\<lparr> currentTime := 2 \<rparr>]). faceLandmarks f = [])"
    by (simp add: st lostFrame_def)
  have hands: "currentTime lostFrame \<noteq> lastVideoTime d0
      \<and> (\<forall>f \<in> set (lostFrame # [lostFrame, lostFrame\<lparr> currentTime := 2 \<rparr>]). landmarks f = [])
      \<and> (faceLandmarks lostFrame = [] \<or> 1 < length (faceLandmarks lostFrame ! 0))"
    by (simp add: st lostFrame_def)
  note loss = stale_on_loss [of lostFrame d0 "[lostFrame, lostFrame\<lparr> currentTime := 2 \<rparr>]"]
  from loss [THEN conjunct2, THEN conjunct2, THEN conjunct1, THEN mp, OF faces]
  have f: "faceDataRef (run [lostFrame, lostFrame, lostFrame\<lparr> currentTime := 2 \<rparr>] d0)
       = \<lparr> FaceData.detected = False, FaceData.position = \<lparr> x = 0.2, y = 0.3, z = 0 \<rparr>,
           tilt = 0 \<rparr>"
    by (simp add: st del: run.simps)
  from loss [THEN conjunct2, THEN conjunct2, THEN conjunct2, THEN mp, OF hands]
  have h: "handDataRef (run [lostFrame, lostFrame, lostFrame\<lparr> currentTime := 2 \<rparr>] d0)
       = \<lparr> HandData.detected = False, isPinching = True, pinchDistance = 0,
           HandData.position = \<lparr> x = 0.5, y = 0.5, z = 0 \<rparr> \<rparr>"
    by (simp add: st del: run.simps)
  have "FaceData.detected (faceDataRef d0) \<and> HandData.detected (handDataRef d0)"
    by (simp add: st)
  with f h show ?thesis unfolding d0_def by (intro conjI) blast+
qed

section \<open>The tilt field\<close>

text \<open>
  Claim C8. In every reachable face record (the initial one, and the one after any
  sequence of ticks, with or without a face, and also after a tick that threw) the tilt
  is 0: the initial record has tilt 0, every detection writes 0, and a loss leaves the
  field as it was.
\<close>

theorem tilt_always_zero:
  "tilt initialFaceData = 0
   \<and> tilt (faceDataRef (run frs predictWebcam)) = 0
   \<and> (faces \<noteq> [] \<and> detectFace faces cur = Inr face \<longrightarrow> tilt face = 0)
   \<and> (detectFace [] cur = Inr face \<longrightarrow> tilt face = tilt cur)"
proof (intro conjI impI)
  show "tilt initialFaceData = 0" by (simp add: initialFaceData_def)
next
  have "tilt (faceDataRef predictWebcam) = 0"
    by (simp add: predictWebcam_def initialFaceData_def)
  then show "tilt (faceDataRef (run frs predictWebcam)) = 0" by (rule run_tilt)
next
  assume "faces \<noteq> [] \<and> detectFace faces cur = Inr face"
  then show "tilt face = 0"
    by (auto simp: detectFace_def split: option.splits)
next
  assume "detectFace [] cur = Inr face"
  then show "tilt face = tilt cur"
    by (auto simp: detectFace_empty)
qed

theorem tilt_always_zero_witness:
  "[sampleFace] \<noteq> []
   \<and> detectFace [sampleFace] (initialFaceData\<lparr> tilt := 7 \<rparr>)
       = Inr \<lparr> FaceData.detected = True, FaceData.position = \<lparr> x = 0.2, y = 0.3, z = 0 \<rparr>,
               tilt = 0 \<rparr>
   \<and> tilt \<lparr> FaceData.detected = True, FaceData.position = \<lparr> x = 0.2, y = 0.3, z = 0 \<rparr>,
            tilt = 0 \<rparr> = 0
   \<and> tilt (faceDataRef (run [pinchFrame, lostFrame] predictWebcam)) = 0"
proof -
  have w: "detectFace [sampleFace] (initialFaceData\<lparr> tilt := 7 \<rparr>)
       = Inr \<lparr> FaceData.detected = True, FaceData.position = \<lparr> x = 0.2, y = 0.3, z = 0 \<rparr>,
               tilt = 0 \<rparr>"
    by (simp add: detectFace_def elem_at_def sampleFace_def landmark_def)
  note t = tilt_always_zero
    [of "[pinchFrame, lostFrame]" "[sampleFace]" "initialFaceData\<lparr> tilt := 7 \<rparr>"
        "\<lparr> FaceData.detected = True, FaceData.position = \<lparr> x = 0.2, y = 0.3, z = 0 \<rparr>,
           tilt = 0 \<rparr>"]
  from t [THEN conjunct2, THEN conjunct1] w show ?thesis by simp
qed

section \<open>The holographic object: rotation\<close>

lemma useFrame_mounted:
  assumes "meshRef sc = Some mesh" and "atmosphereRef sc = Some atmosphere"
      and "coreRef sc = Some core"
  shows "useFrame hand delta sc =
        \<lparr> meshRef =
            Some (scaleLerp (targetScale hand) (rotateY (rotationSpeed hand * delta) mesh)),
          atmosphereRef =
            Some (scaleLerp (targetScale hand * 1.2)
                   (rotateY ((rotationSpeed hand * 0.8) * delta) atmosphere)),
          coreRef =
            Some (scaleLerp (targetScale hand * 0.8)
                   (rotateY (- ((rotationSpeed hand * 0.5) * delta)) core)) \<rparr>"
  using assms by (simp add: useFrame_def)

lemma rotation_scaleLerp: "rotation (scaleLerp s m) = rotation m"
  by (simp add: scaleLerp_def)

lemma rotation_rotateY: "y (rotation (rotateY a m)) = y (rotation m) + a"
  by (simp add: rotateY_def)

lemma scale_scaleLerp: "scale (scaleLerp s m) = lerp (scale m) (uniform s) 0.1"
  by (simp add: scaleLerp_def)

lemma scale_rotateY: "scale (rotateY a m) = scale m"
  by (simp add: rotateY_def)

text \<open>
  Claim C4. With a hand detected, the rotation rate of a frame is
  \<open>R0 + (handX - 0.5) * K\<close> with base rate \<open>R0 = 0.2\<close> and sensitivity \<open>K = 10\<close>:
  \<open>handX = 0.5\<close> gives \<open>R0\<close>, \<open>handX = 1\<close> gives \<open>R0 + 0.5 * K\<close>, \<open>handX = 0\<close> gives
  \<open>R0 - 0.5 * K\<close>. With no hand detected the rate is \<open>R0\<close>. The rate is what the frame
  adds, times the frame's \<open>delta\<close>, to the rotation of the main mesh.
\<close>

theorem rotation_rate:
  "(HandData.detected hand \<longrightarrow>
      rotationSpeed hand = 0.2 + (x (HandData.position hand) - 0.5) * 10)
   \<and> (HandData.detected hand \<and> x (HandData.position hand) = 0.5 \<longrightarrow> rotationSpeed hand = 0.2)
   \<and> (HandData.detected hand \<and> x (HandData.position hand) = 1 \<longrightarrow>
        rotationSpeed hand = 0.2 + 0.5 * 10)
   \<and> (HandData.detected hand \<and> x (HandData.position hand) = 0 \<longrightarrow>
        rotationSpeed hand = 0.2 - 0.5 * 10)
   \<and> (\<not> HandData.detected hand \<longrightarrow> rotationSpeed hand = 0.2)
   \<and> (meshRef sc = Some mesh \<and> atmosphereRef sc = Some atmosphere \<and> coreRef sc = Some core \<longrightarrow>
        (\<exists>mesh'. meshRef (useFrame hand delta sc) = Some mesh'
                \<and> y (rotation mesh') = y (rotation mesh) + rotationSpeed hand * delta))"
proof (intro conjI impI)
  assume "meshRef sc = Some mesh \<and> atmosphereRef sc = Some atmosphere \<and> coreRef sc = Some core"
  then have "meshRef (useFrame hand delta sc) =
      Some (scaleLerp (targetScale hand) (rotateY (rotationSpeed hand * delta) mesh))"
    by (simp add: useFrame_mounted)
  then show "\<exists>mesh'. meshRef (useFrame hand delta sc) = Some mesh'
                \<and> y (rotation mesh') = y (rotation mesh) + rotationSpeed hand * delta"
    by (simp add: rotation_scaleLerp rotation_rotateY)
qed (simp_all add: rotationSpeed_def)

theorem rotation_rate_witness:
  "HandData.detected (handAt 0.5) \<and> rotationSpeed (handAt 0.5) = 0.2
   \<and> HandData.detected (handAt 1) \<and> rotationSpeed (handAt 1) = 5.2
   \<and> HandData.detected (handAt 0) \<and> rotationSpeed (handAt 0) = - 4.8
   \<and> \<not> HandData.detected initialHandData \<and> rotationSpeed initialHandData = 0.2
   \<and> (\<exists>mesh'. meshRef (useFrame (handAt 1) 2 restScene) = Some mesh'
           \<and> y (rotation mesh') = 10.4)"
proof -
  have centre: "HandData.detected (handAt 0.5) \<and> x (HandData.position (handAt 0.5)) = 0.5"
    by (simp add: handAt_def landmark_def)
  have right: "HandData.detected (handAt 1) \<and> x (HandData.position (handAt 1)) = 1"
    by (simp add: handAt_def landmark_def)
  have left: "HandData.detected (handAt 0) \<and> x (HandData.position (handAt 0)) = 0"
    by (simp add: handAt_def landmark_def)
  have none: "\<not> HandData.detected initialHandData"
    by (simp add: initialHandData_def)
  have mounted: "meshRef restScene = Some restMesh \<and> atmosphereRef restScene = Some restMesh
      \<and> coreRef restScene = Some restMesh"
    by (simp add: restScene_def)
  have still: "y (rotation restMesh) = 0" by (simp add: restMesh_def)
  note c = rotation_rate [of "handAt 0.5", THEN conjunct2, THEN conjunct1, THEN mp, OF centre]
  note r = rotation_rate [of "handAt 1", THEN conjunct2, THEN conjunct2, THEN conjunct1,
      THEN mp, OF right]
  note l = rotation_rate [of "handAt 0", THEN conjunct2, THEN conjunct2, THEN conjunct2,
      THEN conjunct1, THEN mp, OF left]
  note n = rotation_rate [of initialHandData, THEN conjunct2, THEN conjunct2, THEN conjunct2,
      THEN conjunct2, THEN conjunct1, THEN mp, OF none]
  note u = rotation_rate [of "handAt 1" restScene restMesh restMesh restMesh 2, THEN conjunct2,
      THEN conjunct2, THEN conjunct2, THEN conjunct2, THEN conjunct2, THEN mp, OF mounted]
  from u obtain m where m: "meshRef (useFrame (handAt 1) 2 restScene) = Some m"
      and turn: "y (rotation m) = y (rotation restMesh) + rotationSpeed (handAt 1) * 2"
    by blast
  from r have "rotationSpeed (handAt 1) = 5.2" by simp
  with turn still have "y (rotation m) = 10.4" by simp
  with m have spin: "\<exists>mesh'. meshRef (useFrame (handAt 1) 2 restScene) = Some mesh'
           \<and> y (rotation mesh') = 10.4"
    by blast
  from centre right left none c r l n have rates:
    "HandData.detected (handAt 0.5) \<and> rotationSpeed (handAt 0.5) = 0.2
     \<and> HandData.detected (handAt 1) \<and> rotationSpeed (handAt 1) = 5.2
     \<and> HandData.detected (handAt 0) \<and> rotationSpeed (handAt 0) = - 4.8
     \<and> \<not> HandData.detected initialHandData \<and> rotationSpeed initialHandData = 0.2"
    by simp
  from rates spin show ?thesis by blast
qed

section \<open>The holographic object: target scale\<close>

lemma pinchFactor_range: "0 \<le> pinchFactor hand \<and> pinchFactor hand \<le> 1"
  by (simp add: pinchFactor_def)

lemma pinchFactor_mono:
  assumes "pinchDistance h1 \<le> pinchDistance h2"
  shows "pinchFactor h1 \<le> pinchFactor h2"
  using assms by (simp add: pinchFactor_def max_def min_def)

lemma pinchFactor_linear:
  assumes "0 \<le> pinchDistance hand" and "pinchDistance hand \<le> 0.1"
  shows "pinchFactor hand = pinchDistance hand * 10"
  using assms by (simp add: pinchFactor_def max_def min_def)

lemma targetScale_upper: "targetScale hand \<le> baseScale * 2"
proof -
  have "pinchFactor hand \<le> 1" by (simp add: pinchFactor_range)
  then have "baseScale * (0.5 + pinchFactor hand * 1.5) \<le> baseScale * 2"
    by (simp add: baseScale_def)
  then show ?thesis by (simp add: targetScale_def baseScale_def)
qed

lemma targetScale_lower: "baseScale * 0.5 \<le> targetScale hand"
proof -
  have "0 \<le> pinchFactor hand" by (simp add: pinchFactor_range)
  then have "baseScale * 0.5 \<le> baseScale * (0.5 + pinchFactor hand * 1.5)"
    by (simp add: baseScale_def)
  then show ?thesis by (simp add: targetScale_def baseScale_def)
qed

lemma detectHands_nonneg:
  assumes "detectHands hands cur = Inr hand"
      and "0 \<le> pinchDistance cur"
  shows "0 \<le> pinchDistance hand"
  using assms
  by (auto simp: detectHands_def Let_def split: if_splits option.splits)

lemma renderLoop_nonneg:
  assumes "0 \<le> pinchDistance (handDataRef d)"
  shows "0 \<le> pinchDistance (handDataRef (after (renderLoop fr d)))"
  using renderLoop_hand_cases [of fr d] assms detectHands_nonneg
  by metis

lemma run_nonneg:
  assumes "0 \<le> pinchDistance (handDataRef d)"
  shows "0 \<le> pinchDistance (handDataRef (run frs d))"
  using assms
proof (induction frs arbitrary: d)
  case Nil
  then show ?case by simp
next
  case (Cons fr frs)
  from Cons.prems have "0 \<le> pinchDistance (handDataRef (after (renderLoop fr d)))"
    by (rule renderLoop_nonneg)
  with Cons.IH show ?case by (simp add: Let_def)
qed

lemma targetScale_pinching_range:
  assumes "HandData.detected hand" and "isPinching hand"
      and "0 \<le> pinchDistance hand" and "pinchDistance hand < 0.05"
  shows "baseScale * 0.5 \<le> targetScale hand \<and> targetScale hand < baseScale * 1.25"
proof -
  from assms have "pinchFactor hand = pinchDistance hand * 10"
    by (simp add: pinchFactor_linear)
  with assms have "targetScale hand < baseScale * 1.25"
    by (simp add: targetScale_def baseScale_def)
  with targetScale_lower [of hand] show ?thesis by blast
qed

lemma targetScale_ceiling:
  assumes "HandData.detected hand" and "isPinching hand" and "0.1 \<le> pinchDistance hand"
  shows "targetScale hand = baseScale * 2"
proof -
  from assms(3) have "pinchFactor hand = 1"
    by (simp add: pinchFactor_def max_def min_def)
  with assms(1,2) show ?thesis by (simp add: targetScale_def)
qed

lemma reachable_pinch_range:
  assumes "HandData.detected (handDataRef (run frs predictWebcam))"
      and "isPinching (handDataRef (run frs predictWebcam))"
  shows "baseScale * 0.5 \<le> targetScale (handDataRef (run frs predictWebcam))
         \<and> targetScale (handDataRef (run frs predictWebcam)) < baseScale * 1.25"
proof -
  have "0 \<le> pinchDistance (handDataRef predictWebcam)"
    by (simp add: predictWebcam_def initialHandData_def)
  then have lo: "0 \<le> pinchDistance (handDataRef (run frs predictWebcam))"
    by (rule run_nonneg)
  have "isPinching (handDataRef predictWebcam) \<longrightarrow> pinchDistance (handDataRef predictWebcam) < 0.05"
    by (simp add: predictWebcam_def initialHandData_def)
  then have "isPinching (handDataRef (run frs predictWebcam)) \<longrightarrow>
      pinchDistance (handDataRef (run frs predictWebcam)) < 0.05"
    by (rule run_pinch_inv)
  with assms(2) have hi: "pinchDistance (handDataRef (run frs predictWebcam)) < 0.05" by blast
  from assms lo hi show ?thesis by (rule targetScale_pinching_range)
qed

text \<open>
  Claim C5, as stated, makes \<open>isPinching\<close> alone decide between the base scale and the
  pinch formula. The frame callback tests \<open>hand.detected && hand.isPinching\<close>. After a
  pinch (thumb and index tips together) followed by a frame without a hand, the record
  keeps \<open>isPinching = True\<close> and \<open>pinchDistance = 0\<close> with \<open>detected = False\<close>; the
  target scale is then the base scale 2.5, not \<open>2.5 * (0.5 + 0 * 1.5) = 1.25\<close>.
\<close>

theorem lost_pinch_counterexample:
  "isPinching (handDataRef (run [pinchFrame, lostFrame] predictWebcam))
   \<and> targetScale (handDataRef (run [pinchFrame, lostFrame] predictWebcam)) = baseScale
   \<and> baseScale * (0.5 + pinchFactor (handDataRef (run [pinchFrame, lostFrame] predictWebcam)) * 1.5)
       = 1.25
   \<and> \<not> (isPinching (handDataRef (run [pinchFrame, lostFrame] predictWebcam)) \<longrightarrow>
          targetScale (handDataRef (run [pinchFrame, lostFrame] predictWebcam))
            = baseScale * (0.5 + pinchFactor (handDataRef (run [pinchFrame, lostFrame] predictWebcam))
                                 * 1.5))"
  unfolding after_lostFrame
  by (simp add: targetScale_def pinchFactor_def baseScale_def)

text \<open>
  Claim C5, amended. For every frame update: if the hand is not both detected and
  pinching, the target scale is the base scale \<open>S0 = 2.5\<close>; if it is detected and
  pinching, the target scale is \<open>S0 * (0.5 + normalized * 1.5)\<close>, where \<open>normalized\<close> is
  \<open>pinchDistance * 10\<close> clamped into [0, 1]. Over detected pinching hands the target is
  nondecreasing in \<open>pinchDistance\<close>: it is \<open>0.5 * S0\<close> at distance 0, and for distances
  in [0, 0.05) it is \<open>S0 * (0.5 + 15 * pinchDistance)\<close>, at least \<open>0.5 * S0\<close> and
  strictly below \<open>1.25 * S0\<close>. Every detected pinching record the driver loop can
  write lies in that range, so its target stays below \<open>1.25 * S0\<close>. The value
  \<open>2 * S0\<close> is the target only from \<open>pinchDistance = 0.1\<close> upward, and no target
  exceeds it.
\<close>

theorem target_scale:
  "(\<not> (HandData.detected hand \<and> isPinching hand) \<longrightarrow> targetScale hand = baseScale)
   \<and> (HandData.detected hand \<and> isPinching hand \<longrightarrow>
        targetScale hand = baseScale * (0.5 + pinchFactor hand * 1.5))
   \<and> pinchFactor hand = max 0 (min 1 (pinchDistance hand * 10))
   \<and> 0 \<le> pinchFactor hand \<and> pinchFactor hand \<le> 1
   \<and> (HandData.detected hand \<and> isPinching hand \<and> HandData.detected hand' \<and> isPinching hand'
        \<and> pinchDistance hand \<le> pinchDistance hand' \<longrightarrow> targetScale hand \<le> targetScale hand')
   \<and> (HandData.detected hand \<and> isPinching hand \<and> pinchDistance hand = 0 \<longrightarrow>
        targetScale hand = baseScale * 0.5)
   \<and> (HandData.detected hand \<and> isPinching hand \<and> 0 \<le> pinchDistance hand
        \<and> pinchDistance hand < 0.05 \<longrightarrow>
        targetScale hand = baseScale * (0.5 + pinchDistance hand * 10 * 1.5)
        \<and> baseScale * 0.5 \<le> targetScale hand \<and> targetScale hand < baseScale * 1.25)
   \<and> targetScale hand \<le> baseScale * 2
   \<and> (HandData.detected hand \<and> isPinching hand \<and> 0.1 \<le> pinchDistance hand \<longrightarrow>
        targetScale hand = baseScale * 2)
   \<and> (HandData.detected (handDataRef (run frs predictWebcam))
        \<and> isPinching (handDataRef (run frs predictWebcam)) \<longrightarrow>
        baseScale * 0.5 \<le> targetScale (handDataRef (run frs predictWebcam))
        \<and> targetScale (handDataRef (run frs predictWebcam)) < baseScale * 1.25)"
proof (intro conjI impI)
  show "pinchFactor hand = max 0 (min 1 (pinchDistance hand * 10))"
    by (simp add: pinchFactor_def)
  show "0 \<le> pinchFactor hand" and "pinchFactor hand \<le> 1"
    by (simp_all add: pinchFactor_range)
  show "targetScale hand \<le> baseScale * 2" by (rule targetScale_upper)
next
  assume "\<not> (HandData.detected hand \<and> isPinching hand)"
  then have "(if HandData.detected hand \<and> isPinching hand
              then baseScale * (0.5 + pinchFactor hand * 1.5) else baseScale) = baseScale"
    by (rule if_not_P)
  then show "targetScale hand = baseScale" by (simp only: targetScale_def)
next
  assume "HandData.detected hand \<and> isPinching hand"
  then show "targetScale hand = baseScale * (0.5 + pinchFactor hand * 1.5)"
    by (simp add: targetScale_def)
next
  assume a: "HandData.detected hand \<and> isPinching hand \<and> HandData.detected hand' \<and> isPinching hand'
        \<and> pinchDistance hand \<le> pinchDistance hand'"
  then have "pinchFactor hand \<le> pinchFactor hand'" by (simp add: pinchFactor_mono)
  with a show "targetScale hand \<le> targetScale hand'"
    by (simp add: targetScale_def baseScale_def)
next
  assume "HandData.detected hand \<and> isPinching hand \<and> pinchDistance hand = 0"
  then show "targetScale hand = baseScale * 0.5"
    by (simp add: targetScale_def pinchFactor_def)
next
  assume a: "HandData.detected hand \<and> isPinching hand \<and> 0 \<le> pinchDistance hand
        \<and> pinchDistance hand < 0.05"
  then have lin: "pinchFactor hand = pinchDistance hand * 10"
    by (simp add: pinchFactor_linear)
  with a show "targetScale hand = baseScale * (0.5 + pinchDistance hand * 10 * 1.5)"
    by (simp add: targetScale_def)
  show "baseScale * 0.5 \<le> targetScale hand" by (rule targetScale_lower)
  from a lin show "targetScale hand < baseScale * 1.25"
    by (simp add: targetScale_def baseScale_def)
next
  assume "HandData.detected hand \<and> isPinching hand \<and> 0.1 \<le> pinchDistance hand"
  then show "targetScale hand = baseScale * 2"
    using targetScale_ceiling [of hand] by blast
next
  assume a: "HandData.detected (handDataRef (run frs predictWebcam))
        \<and> isPinching (handDataRef (run frs predictWebcam))"
  from a [THEN conjunct1] a [THEN conjunct2]
  have r: "baseScale * 0.5 \<le> targetScale (handDataRef (run frs predictWebcam))
         \<and> targetScale (handDataRef (run frs predictWebcam)) < baseScale * 1.25"
    by (rule reachable_pinch_range)
  from r show "baseScale * 0.5 \<le> targetScale (handDataRef (run frs predictWebcam))" by blast
  from r show "targetScale (handDataRef (run frs predictWebcam)) < baseScale * 1.25" by blast
qed

theorem target_scale_witness:
  "\<not> (HandData.detected (handAt 0.5) \<and> isPinching (handAt 0.5))
   \<and> targetScale (handAt 0.5) = 2.5
   \<and> HandData.detected (pinchAt 0) \<and> isPinching (pinchAt 0)
   \<and> targetScale (pinchAt 0) = 1.25
   \<and> HandData.detected (pinchAt 0.04) \<and> isPinching (pinchAt 0.04)
   \<and> targetScale (pinchAt 0.04) = 2.75
   \<and> targetScale (pinchAt 0) \<le> targetScale (pinchAt 0.04)
   \<and> HandData.detected (handDataRef (run [pinchFrame] predictWebcam))
   \<and> isPinching (handDataRef (run [pinchFrame] predictWebcam))
   \<and> targetScale (handDataRef (run [pinchFrame] predictWebcam)) < 3.125"
proof -
  have base: "\<not> (HandData.detected (handAt 0.5) \<and> isPinching (handAt 0.5))"
    by (simp add: handAt_def)
  have tight: "HandData.detected (pinchAt 0) \<and> isPinching (pinchAt 0) \<and> pinchDistance (pinchAt 0) = 0"
    by (simp add: pinchAt_def)
  have loose: "HandData.detected (pinchAt 0.04) \<and> isPinching (pinchAt 0.04)
      \<and> 0 \<le> pinchDistance (pinchAt 0.04) \<and> pinchDistance (pinchAt 0.04) < 0.05"
    by (simp add: pinchAt_def)
  have both: "HandData.detected (pinchAt 0) \<and> isPinching (pinchAt 0)
      \<and> HandData.detected (pinchAt 0.04) \<and> isPinching (pinchAt 0.04)
      \<and> pinchDistance (pinchAt 0) \<le> pinchDistance (pinchAt 0.04)"
    by (simp add: pinchAt_def)
  have gap: "pinchDistance (pinchAt 0.04) = 0.04" by (simp add: pinchAt_def)
  note b = target_scale [of "handAt 0.5", THEN conjunct1, THEN mp, OF base]
  note t = target_scale [of "pinchAt 0", THEN conjunct2, THEN conjunct2, THEN conjunct2,
      THEN conjunct2, THEN conjunct2, THEN conjunct2, THEN conjunct1, THEN mp, OF tight]
  note l = target_scale [of "pinchAt 0.04", THEN conjunct2, THEN conjunct2, THEN conjunct2,
      THEN conjunct2, THEN conjunct2, THEN conjunct2, THEN conjunct2, THEN conjunct1, THEN mp,
      OF loose, THEN conjunct1]
  note m = target_scale [of "pinchAt 0" "pinchAt 0.04", THEN conjunct2, THEN conjunct2,
      THEN conjunct2, THEN conjunct2, THEN conjunct2, THEN conjunct1, THEN mp, OF both]
  from b have b': "targetScale (handAt 0.5) = 2.5" by (simp add: baseScale_def)
  from t have t': "targetScale (pinchAt 0) = 1.25" by (simp add: baseScale_def)
  from l gap have l': "targetScale (pinchAt 0.04) = 2.75" by (simp add: baseScale_def)
  have reached: "HandData.detected (handDataRef (run [pinchFrame] predictWebcam))
      \<and> isPinching (handDataRef (run [pinchFrame] predictWebcam))"
    unfolding after_pinchFrame by simp
  note r = target_scale [of "pinchAt 0" "pinchAt 0" "[pinchFrame]", THEN conjunct2,
      THEN conjunct2, THEN conjunct2, THEN conjunct2, THEN conjunct2, THEN conjunct2,
      THEN conjunct2, THEN conjunct2, THEN conjunct2, THEN conjunct2, THEN mp, OF reached,
      THEN conjunct2]
  from r have r': "targetScale (handDataRef (run [pinchFrame] predictWebcam)) < 3.125"
    by (simp add: baseScale_def del: run.simps)
  from base tight loose b' t' l' m reached r' show ?thesis by blast
qed

text \<open>
  Claim C6. For a hand record with \<open>detected\<close> and \<open>isPinching\<close> true and
  \<open>pinchDistance = 0.1\<close>, the normalized pinch factor is exactly 1 and the target scale
  is \<open>S0 * 2\<close>; and for every hand record the target scale is at most \<open>S0 * 2\<close>.
\<close>

theorem pinch_ceiling:
  "(HandData.detected hand \<and> isPinching hand \<and> pinchDistance hand = 0.1 \<longrightarrow>
      pinchFactor hand = 1 \<and> targetScale hand = baseScale * 2)
   \<and> targetScale hand \<le> baseScale * 2"
proof (intro conjI impI)
  assume a: "HandData.detected hand \<and> isPinching hand \<and> pinchDistance hand = 0.1"
  then show one: "pinchFactor hand = 1" by (simp add: pinchFactor_def)
  with a show "targetScale hand = baseScale * 2" by (simp add: targetScale_def)
next
  show "targetScale hand \<le> baseScale * 2" by (rule targetScale_upper)
qed

theorem pinch_ceiling_witness:
  "HandData.detected (pinchAt 0.1) \<and> isPinching (pinchAt 0.1) \<and> pinchDistance (pinchAt 0.1) = 0.1
   \<and> pinchFactor (pinchAt 0.1) = 1 \<and> targetScale (pinchAt 0.1) = 5"
proof -
  have a: "HandData.detected (pinchAt 0.1) \<and> isPinching (pinchAt 0.1)
      \<and> pinchDistance (pinchAt 0.1) = 0.1"
    by (simp add: pinchAt_def)
  from pinch_ceiling [of "pinchAt 0.1", THEN conjunct1, THEN mp, OF a]
  have "pinchFactor (pinchAt 0.1) = 1 \<and> targetScale (pinchAt 0.1) = 5"
    by (simp add: baseScale_def)
  with a show ?thesis by blast
qed

section \<open>The holographic object: smoothing\<close>

lemma lerp_distance:
  "\<bar>cur + (tgt - cur) * 0.1 - tgt\<bar> = 0.9 * \<bar>cur - (tgt::real)\<bar>"
  by argo

lemma lerp_below:
  assumes "cur \<le> (tgt::real)"
  shows "cur \<le> cur + (tgt - cur) * 0.1 \<and> cur + (tgt - cur) * 0.1 \<le> tgt"
  using assms by argo

lemma lerp_above:
  assumes "(tgt::real) \<le> cur"
  shows "tgt \<le> cur + (tgt - cur) * 0.1 \<and> cur + (tgt - cur) * 0.1 \<le> cur"
  using assms by argo

lemma lerp_step:
  "cur + (tgt - cur) * 0.1 = cur + 0.1 * (tgt - (cur::real))"
  by argo

lemma lerp_sel:
  "x (lerp cur tgt alpha) = x cur + (x tgt - x cur) * alpha"
  "y (lerp cur tgt alpha) = y cur + (y tgt - y cur) * alpha"
  "z (lerp cur tgt alpha) = z cur + (z tgt - z cur) * alpha"
  by (simp_all add: lerp_def)

text \<open>
  Claim C9. Every frame, each component of the applied scale moves from its current
  value toward the target by the damping factor 0.1:
  \<open>new = current + 0.1 * (target - current)\<close>. The distance to the target is
  multiplied by 0.9, and the new value lies between the current value and the target,
  so it never overshoots. The frame callback applies this step to the scale of each of
  the three meshes, with targets \<open>targetScale\<close>, \<open>targetScale * 1.2\<close> and
  \<open>targetScale * 0.8\<close>.
\<close>

theorem scale_smoothing:
  "x (lerp cur tgt 0.1) = x cur + 0.1 * (x tgt - x cur)
   \<and> y (lerp cur tgt 0.1) = y cur + 0.1 * (y tgt - y cur)
   \<and> z (lerp cur tgt 0.1) = z cur + 0.1 * (z tgt - z cur)
   \<and> \<bar>x (lerp cur tgt 0.1) - x tgt\<bar> = 0.9 * \<bar>x cur - x tgt\<bar>
   \<and> \<bar>y (lerp cur tgt 0.1) - y tgt\<bar> = 0.9 * \<bar>y cur - y tgt\<bar>
   \<and> \<bar>z (lerp cur tgt 0.1) - z tgt\<bar> = 0.9 * \<bar>z cur - z tgt\<bar>
   \<and> (x cur \<le> x tgt \<longrightarrow> x cur \<le> x (lerp cur tgt 0.1) \<and> x (lerp cur tgt 0.1) \<le> x tgt)
   \<and> (x tgt \<le> x cur \<longrightarrow> x tgt \<le> x (lerp cur tgt 0.1) \<and> x (lerp cur tgt 0.1) \<le> x cur)
   \<and> (y cur \<le> y tgt \<longrightarrow> y cur \<le> y (lerp cur tgt 0.1) \<and> y (lerp cur tgt 0.1) \<le> y tgt)
   \<and> (y tgt \<le> y cur \<longrightarrow> y tgt \<le> y (lerp cur tgt 0.1) \<and> y (lerp cur tgt 0.1) \<le> y cur)
   \<and> (z cur \<le> z tgt \<longrightarrow> z cur \<le> z (lerp cur tgt 0.1) \<and> z (lerp cur tgt 0.1) \<le> z tgt)
   \<and> (z tgt \<le> z cur \<longrightarrow> z tgt \<le> z (lerp cur tgt 0.1) \<and> z (lerp cur tgt 0.1) \<le> z cur)
   \<and> (meshRef sc = Some mesh \<and> atmosphereRef sc = Some atmosphere \<and> coreRef sc = Some core \<longrightarrow>
        map_option scale (meshRef (useFrame hand delta sc))
          = Some (lerp (scale mesh) (uniform (targetScale hand)) 0.1)
        \<and> map_option scale (atmosphereRef (useFrame hand delta sc))
          = Some (lerp (scale atmosphere) (uniform (targetScale hand * 1.2)) 0.1)
        \<and> map_option scale (coreRef (useFrame hand delta sc))
          = Some (lerp (scale core) (uniform (targetScale hand * 0.8)) 0.1))"
proof (intro conjI impI)
  assume "meshRef sc = Some mesh \<and> atmosphereRef sc = Some atmosphere \<and> coreRef sc = Some core"
  then have u: "useFrame hand delta sc =
        \<lparr> meshRef =
            Some (scaleLerp (targetScale hand) (rotateY (rotationSpeed hand * delta) mesh)),
          atmosphereRef =
            Some (scaleLerp (targetScale hand * 1.2)
                   (rotateY ((rotationSpeed hand * 0.8) * delta) atmosphere)),
          coreRef =
            Some (scaleLerp (targetScale hand * 0.8)
                   (rotateY (- ((rotationSpeed hand * 0.5) * delta)) core)) \<rparr>"
    by (simp add: useFrame_mounted)
  from u show "map_option scale (meshRef (useFrame hand delta sc))
          = Some (lerp (scale mesh) (uniform (targetScale hand)) 0.1)"
    by (simp add: scale_scaleLerp scale_rotateY)
  from u show "map_option scale (atmosphereRef (useFrame hand delta sc))
          = Some (lerp (scale atmosphere) (uniform (targetScale hand * 1.2)) 0.1)"
    by (simp add: scale_scaleLerp scale_rotateY)
  from u show "map_option scale (coreRef (useFrame hand delta sc))
          = Some (lerp (scale core) (uniform (targetScale hand * 0.8)) 0.1)"
    by (simp add: scale_scaleLerp scale_rotateY)
next
  show "x (lerp cur tgt 0.1) = x cur + 0.1 * (x tgt - x cur)"
    unfolding lerp_sel by (rule lerp_step)
  show "y (lerp cur tgt 0.1) = y cur + 0.1 * (y tgt - y cur)"
    unfolding lerp_sel by (rule lerp_step)
  show "z (lerp cur tgt 0.1) = z cur + 0.1 * (z tgt - z cur)"
    unfolding lerp_sel by (rule lerp_step)
  show "\<bar>x (lerp cur tgt 0.1) - x tgt\<bar> = 0.9 * \<bar>x cur - x tgt\<bar>"
    unfolding lerp_sel by (rule lerp_distance)
  show "\<bar>y (lerp cur tgt 0.1) - y tgt\<bar> = 0.9 * \<bar>y cur - y tgt\<bar>"
    unfolding lerp_sel by (rule lerp_distance)
  show "\<bar>z (lerp cur tgt 0.1) - z tgt\<bar> = 0.9 * \<bar>z cur - z tgt\<bar>"
    unfolding lerp_sel by (rule lerp_distance)
next
  assume "x cur \<le> x tgt"
  then show "x cur \<le> x (lerp cur tgt 0.1)" and "x (lerp cur tgt 0.1) \<le> x tgt"
    unfolding lerp_sel using lerp_below [of "x cur" "x tgt"] by blast+
next
  assume "x tgt \<le> x cur"
  then show "x tgt \<le> x (lerp cur tgt 0.1)" and "x (lerp cur tgt 0.1) \<le> x cur"
    unfolding lerp_sel using lerp_above [of "x tgt" "x cur"] by blast+
next
  assume "y cur \<le> y tgt"
  then show "y cur \<le> y (lerp cur tgt 0.1)" and "y (lerp cur tgt 0.1) \<le> y tgt"
    unfolding lerp_sel using lerp_below [of "y cur" "y tgt"] by blast+
next
  assume "y tgt \<le> y cur"
  then show "y tgt \<le> y (lerp cur tgt 0.1)" and "y (lerp cur tgt 0.1) \<le> y cur"
    unfolding lerp_sel using lerp_above [of "y tgt" "y cur"] by blast+
next
  assume "z cur \<le> z tgt"
  then show "z cur \<le> z (lerp cur tgt 0.1)" and "z (lerp cur tgt 0.1) \<le> z tgt"
    unfolding lerp_sel using lerp_below [of "z cur" "z tgt"] by blast+
next
  assume "z tgt \<le> z cur"
  then show "z tgt \<le> z (lerp cur tgt 0.1)" and "z (lerp cur tgt 0.1) \<le> z cur"
    unfolding lerp_sel using lerp_above [of "z tgt" "z cur"] by blast+
qed

theorem scale_smoothing_witness:
  "x (uniform 1) \<le> x (uniform 2.5)
   \<and> x (lerp (uniform 1) (uniform 2.5) 0.1) = 1.15
   \<and> x (lerp (uniform 1) (uniform 2.5) 0.1) \<le> 2.5
   \<and> x (uniform 2.5) \<le> x (uniform 4)
   \<and> x (lerp (uniform 4) (uniform 2.5) 0.1) = 3.85
   \<and> 2.5 \<le> x (lerp (uniform 4) (uniform 2.5) 0.1)
   \<and> map_option scale (meshRef (useFrame initialHandData 1 restScene)) = Some (uniform 1.15)
   \<and> map_option scale (atmosphereRef (useFrame initialHandData 1 restScene)) = Some (uniform 1.2)
   \<and> map_option scale (coreRef (useFrame initialHandData 1 restScene)) = Some (uniform 1.1)"
proof -
  have up: "x (uniform 1) \<le> x (uniform 2.5)" by (simp add: uniform_def)
  have down: "x (uniform 2.5) \<le> x (uniform 4)" by (simp add: uniform_def)
  have mounted: "meshRef restScene = Some restMesh \<and> atmosphereRef restScene = Some restMesh
      \<and> coreRef restScene = Some restMesh"
    by (simp add: restScene_def)
  have target: "targetScale initialHandData = 2.5"
    by (simp add: targetScale_def initialHandData_def baseScale_def)
  have rest: "scale restMesh = uniform 1" by (simp add: restMesh_def uniform_def)
  note a = scale_smoothing [of "uniform 1" "uniform 2.5"]
  note b = scale_smoothing [of "uniform 4" "uniform 2.5"]
  note c = scale_smoothing [of "uniform 1" "uniform 2.5" restScene restMesh restMesh restMesh
      initialHandData 1, THEN conjunct2, THEN conjunct2, THEN conjunct2, THEN conjunct2,
      THEN conjunct2, THEN conjunct2, THEN conjunct2, THEN conjunct2, THEN conjunct2,
      THEN conjunct2, THEN conjunct2, THEN conjunct2, THEN mp, OF mounted]
  from a have a1: "x (lerp (uniform 1) (uniform 2.5) 0.1) = 1.15"
    by (simp add: uniform_def)
  from a up have a2: "x (lerp (uniform 1) (uniform 2.5) 0.1) \<le> 2.5"
    by (simp add: uniform_def)
  from b have b1: "x (lerp (uniform 4) (uniform 2.5) 0.1) = 3.85"
    by (simp add: uniform_def)
  from b down have b2: "2.5 \<le> x (lerp (uniform 4) (uniform 2.5) 0.1)"
    by (simp add: uniform_def)
  from c have c1:
    "map_option scale (meshRef (useFrame initialHandData 1 restScene)) = Some (uniform 1.15)
     \<and> map_option scale (atmosphereRef (useFrame initialHandData 1 restScene)) = Some (uniform 1.2)
     \<and> map_option scale (coreRef (useFrame initialHandData 1 restScene)) = Some (uniform 1.1)"
    unfolding target rest by (simp add: lerp_def uniform_def)
  from up down a1 a2 b1 b2 c1 show ?thesis by blast
qed

section \<open>The tracking panel: projection\<close>

text \<open>
  Claim C7. On a HUD update with the panel mounted and \<open>detected\<close> true, the panel is
  translated to \<open>((1 - normalizedX) * viewportWidth + 180, normalizedY * viewportHeight - 50)\<close>,
  its opacity is set to 1 and the status to ONLINE; a face at (0.2, 0.3) on a
  1000 by 800 viewport gives the position (980, 190). When \<open>detected\<close> is false the
  opacity is set to 0.3 and the status to SEARCHING.
\<close>

theorem hud_projection:
  "(containerRef hud = Some style \<and> FaceData.detected face \<longrightarrow>
      containerRef (updateHUD face window hud) =
        Some (style\<lparr> transform :=
                       Some (Translate ((1 - x (FaceData.position face)) * innerWidth window + 180)
                                       (y (FaceData.position face) * innerHeight window - 50)),
                     opacity := ''1'' \<rparr>)
      \<and> systemStatus (updateHUD face window hud) = ''ONLINE'')
   \<and> (containerRef hud = Some style \<and> FaceData.detected face
        \<and> x (FaceData.position face) = 0.2 \<and> y (FaceData.position face) = 0.3
        \<and> innerWidth window = 1000 \<and> innerHeight window = 800 \<longrightarrow>
      transform (the (containerRef (updateHUD face window hud))) = Some (Translate 980 190))
   \<and> (containerRef hud = Some style \<and> \<not> FaceData.detected face \<longrightarrow>
      containerRef (updateHUD face window hud) = Some (style\<lparr> opacity := ''0.3'' \<rparr>)
      \<and> systemStatus (updateHUD face window hud) = ''SEARCHING...'')"
  by (simp add: updateHUD_def Let_def)

theorem hud_projection_witness:
  "updateHUD
        \<lparr> FaceData.detected = True, FaceData.position = \<lparr> x = 0.2, y = 0.3, z = 0 \<rparr>, tilt = 0 \<rparr>
        \<lparr> innerWidth = 1000, innerHeight = 800 \<rparr>
        \<lparr> containerRef = Some \<lparr> transform = None, opacity = ''0'' \<rparr>, systemStatus = ''STANDBY'' \<rparr>
      = \<lparr> containerRef = Some \<lparr> transform = Some (Translate 980 190), opacity = ''1'' \<rparr>,
          systemStatus = ''ONLINE'' \<rparr>
   \<and> \<not> FaceData.detected initialFaceData
   \<and> updateHUD initialFaceData
        \<lparr> innerWidth = 1000, innerHeight = 800 \<rparr>
        \<lparr> containerRef = Some \<lparr> transform = None, opacity = ''0'' \<rparr>, systemStatus = ''STANDBY'' \<rparr>
      = \<lparr> containerRef = Some \<lparr> transform = None, opacity = ''0.3'' \<rparr>,
          systemStatus = ''SEARCHING...'' \<rparr>"
proof -
  have lost: "\<not> FaceData.detected initialFaceData" by (simp add: initialFaceData_def)
  have whole: "\<And>h c s. containerRef h = c \<and> systemStatus h = s \<Longrightarrow>
      h = \<lparr> containerRef = c, systemStatus = s \<rparr>"
    by auto
  from hud_projection
    [of "\<lparr> containerRef = Some \<lparr> transform = None, opacity = ''0'' \<rparr>, systemStatus = ''STANDBY'' \<rparr>"
        "\<lparr> transform = None, opacity = ''0'' \<rparr>"
        "\<lparr> FaceData.detected = True, FaceData.position = \<lparr> x = 0.2, y = 0.3, z = 0 \<rparr>, tilt = 0 \<rparr>"
        "\<lparr> innerWidth = 1000, innerHeight = 800 \<rparr>"]
  have a: "containerRef (updateHUD
        \<lparr> FaceData.detected = True, FaceData.position = \<lparr> x = 0.2, y = 0.3, z = 0 \<rparr>, tilt = 0 \<rparr>
        \<lparr> innerWidth = 1000, innerHeight = 800 \<rparr>
        \<lparr> containerRef = Some \<lparr> transform = None, opacity = ''0'' \<rparr>, systemStatus = ''STANDBY'' \<rparr>)
       = Some \<lparr> transform = Some (Translate 980 190), opacity = ''1'' \<rparr>
     \<and> systemStatus (updateHUD
        \<lparr> FaceData.detected = True, FaceData.position = \<lparr> x = 0.2, y = 0.3, z = 0 \<rparr>, tilt = 0 \<rparr>
        \<lparr> innerWidth = 1000, innerHeight = 800 \<rparr>
        \<lparr> containerRef = Some \<lparr> transform = None, opacity = ''0'' \<rparr>, systemStatus = ''STANDBY'' \<rparr>)
       = ''ONLINE''"
    by simp
  from hud_projection
    [of "\<lparr> containerRef = Some \<lparr> transform = None, opacity = ''0'' \<rparr>, systemStatus = ''STANDBY'' \<rparr>"
        "\<lparr> transform = None, opacity = ''0'' \<rparr>"
        initialFaceData
        "\<lparr> innerWidth = 1000, innerHeight = 800 \<rparr>"] lost
  have b: "containerRef (updateHUD initialFaceData
        \<lparr> innerWidth = 1000, innerHeight = 800 \<rparr>
        \<lparr> containerRef = Some \<lparr> transform = None, opacity = ''0'' \<rparr>, systemStatus = ''STANDBY'' \<rparr>)
       = Some \<lparr> transform = None, opacity = ''0.3'' \<rparr>
     \<and> systemStatus (updateHUD initialFaceData
        \<lparr> innerWidth = 1000, innerHeight = 800 \<rparr>
        \<lparr> containerRef = Some \<lparr> transform = None, opacity = ''0'' \<rparr>, systemStatus = ''STANDBY'' \<rparr>)
       = ''SEARCHING...''"
    by simp
  from a [THEN whole] b [THEN whole] lost show ?thesis by (intro conjI)
qed

end
